theory Spec2Isabelle
  imports Main
begin

section \<open>Documents, exceptions and log records\<close>

text \<open>
  What \<^verbatim>\<open>yaml.safe_load\<close> returns: scalars, lists and dictionaries. A dictionary is an
  association list in insertion order (the order \<^verbatim>\<open>dict.items()\<close> iterates in); its keys
  are strings. Floats, dates and non-string keys are left out.
\<close>

datatype yaml =
    YNull
  | YBool bool
  | YInt int
  | YStr string
  | YList "yaml list"
  | YDict "(string \<times> yaml) list"

text \<open>
  The exceptions of \<^verbatim>\<open>utils.py\<close>. \<open>ValidationError\<close> carries its \<^verbatim>\<open>message\<close>;
  \<open>OSError\<close> and \<open>YAMLError\<close> are what \<^verbatim>\<open>load_yaml\<close> raises on an unreadable or
  malformed file.
\<close>

datatype exn =
    KeyError string
  | TypeError
  | AttributeError
  | IndexError
  | ValidationError string
  | OSError
  | YAMLError

definition bind :: "exn + 'a \<Rightarrow> ('a \<Rightarrow> exn + 'b) \<Rightarrow> exn + 'b" where
  "bind m f = (case m of Inl e \<Rightarrow> Inl e | Inr x \<Rightarrow> f x)"

text \<open>\<^verbatim>\<open>d[key]\<close>: a missing key raises KeyError, a value that is no dictionary TypeError.\<close>

fun subscript :: "yaml \<Rightarrow> string \<Rightarrow> exn + yaml" where
  "subscript (YDict kvs) key =
     (case map_of kvs key of None \<Rightarrow> Inl (KeyError key) | Some v \<Rightarrow> Inr v)"
| "subscript _ key = Inl TypeError"

text \<open>\<^verbatim>\<open>d.get(key, default)\<close>: only a dictionary has the method.\<close>

fun dict_get :: "yaml \<Rightarrow> string \<Rightarrow> yaml \<Rightarrow> exn + yaml" where
  "dict_get (YDict kvs) key dflt =
     (case map_of kvs key of None \<Rightarrow> Inr dflt | Some v \<Rightarrow> Inr v)"
| "dict_get _ key dflt = Inl AttributeError"

text \<open>
  \<^verbatim>\<open>for x in v\<close>: a list gives its elements, a dictionary its keys, a string its
  characters; the other values are not iterable.
\<close>

fun py_iter :: "yaml \<Rightarrow> exn + yaml list" where
  "py_iter (YList xs) = Inr xs"
| "py_iter (YDict kvs) = Inr (map (\<lambda>kv. YStr (fst kv)) kvs)"
| "py_iter (YStr s) = Inr (map (\<lambda>c. YStr [c]) s)"
| "py_iter _ = Inl TypeError"

text \<open>
  The source annotates \<^verbatim>\<open>repo_name: str\<close>, \<^verbatim>\<open>repo_attributes: list[str]\<close> and
  \<^verbatim>\<open>attributes: list[str]\<close>, and the data model declares \<^verbatim>\<open>RepoData.path\<close> a string.
  The model enforces these types where the value is used: a value of another shape is
  reported as \<open>TypeError\<close> there. (Python checks no annotation and fails later or not at
  all; the documents of the theorems below are all well typed.)
\<close>

fun as_str :: "yaml \<Rightarrow> exn + string" where
  "as_str (YStr s) = Inr s"
| "as_str _ = Inl TypeError"

fun as_strs :: "yaml list \<Rightarrow> exn + string list" where
  "as_strs [] = Inr []"
| "as_strs (x # xs) =
     bind (as_str x) (\<lambda>s. bind (as_strs xs) (\<lambda>ss. Inr (s # ss)))"

definition as_str_list :: "yaml \<Rightarrow> exn + string list" where
  "as_str_list v = bind (py_iter v) as_strs"

text \<open>\<^verbatim>\<open>str(n)\<close> of an integer: its decimal digits, with a minus sign when negative.\<close>

fun str_nat :: "nat \<Rightarrow> string" where
  "str_nat n =
     (if n < 10 then [''0123456789'' ! n]
      else str_nat (n div 10) @ [''0123456789'' ! (n mod 10)])"

definition str_int :: "int \<Rightarrow> string" where
  "str_int i = (if i < 0 then CHR ''-'' # str_nat (nat (- i)) else str_nat (nat i))"

text \<open>\<^verbatim>\<open>str(ver)\<close> of a scalar; the \<^verbatim>\<open>repr\<close> of lists and dictionaries is not modelled.\<close>

fun py_str :: "yaml \<Rightarrow> exn + string" where
  "py_str (YStr s) = Inr s"
| "py_str (YInt i) = Inr (str_int i)"
| "py_str (YBool b) = Inr (if b then ''True'' else ''False'')"
| "py_str YNull = Inr ''None''"
| "py_str _ = Inl TypeError"

fun py_strs :: "yaml list \<Rightarrow> exn + string list" where
  "py_strs [] = Inr []"
| "py_strs (x # xs) =
     bind (py_str x) (\<lambda>s. bind (py_strs xs) (\<lambda>ss. Inr (s # ss)))"

text \<open>\<^verbatim>\<open>sep.join(xs)\<close> on a list of strings.\<close>

fun join :: "string \<Rightarrow> string list \<Rightarrow> string" where
  "join sep [] = []"
| "join sep [x] = x"
| "join sep (x # y # ys) = x @ sep @ join sep (y # ys)"

section \<open>The configuration model\<close>

text \<open>
  \<^verbatim>\<open>data_models.py\<close> is not part of the source; the records follow the constructor
  calls of \<^verbatim>\<open>utils.py\<close>, each field named after the variable the source reads it
  through (\<^verbatim>\<open>repo_data.path\<close>, \<^verbatim>\<open>config.versions\<close>). \<^verbatim>\<open>MainConfig\<close> stores the top-level
  values of the document as they are.
\<close>

record RepoData =
  repo_data_name :: string
  repo_data_path :: string
  repo_data_arches :: "string list"
  repo_data_versions :: "string list"

record MainConfig =
  config_allowed_outdate :: yaml
  config_mirrors_dir :: yaml
  config_versions :: yaml
  config_duplicated_versions :: yaml
  config_arches :: yaml
  config_required_protocols :: yaml
  config_repos :: "RepoData list"

section \<open>\<^verbatim>\<open>process_main_config\<close>\<close>

text \<open>
  \<^verbatim>\<open>_process_repo_attributes\<close>: the loop raises ValidationError at the first element of
  \<open>repo_attributes\<close> that is not in \<open>attributes\<close>; otherwise the list is returned
  unchanged.
\<close>

definition absent_message :: "string \<Rightarrow> string \<Rightarrow> string list \<Rightarrow> string" where
  "absent_message repo_arch repo_name attributes =
     ''Attr \"'' @ repo_arch @ ''\" of repo \"'' @ repo_name @ ''\" is absent ''
     @ ''in the main list of attrs \"'' @ join '', '' attributes @ ''\"''"

fun check_repo_attributes :: "string \<Rightarrow> string list \<Rightarrow> string list \<Rightarrow> exn + unit" where
  "check_repo_attributes repo_name [] attributes = Inr ()"
| "check_repo_attributes repo_name (repo_arch # rest) attributes =
     (if repo_arch \<notin> set attributes
      then Inl (ValidationError (absent_message repo_arch repo_name attributes))
      else check_repo_attributes repo_name rest attributes)"

definition process_repo_attributes ::
  "string \<Rightarrow> string list \<Rightarrow> string list \<Rightarrow> exn + string list" where
  "process_repo_attributes repo_name repo_attributes attributes =
     bind (check_repo_attributes repo_name repo_attributes attributes)
       (\<lambda>_. Inr repo_attributes)"

text \<open>
  One \<^verbatim>\<open>RepoData(...)\<close> of the list comprehension. The keyword arguments are evaluated
  in the order written. Both calls of \<^verbatim>\<open>_process_repo_attributes\<close> receive
  \<^verbatim>\<open>attributes=yaml_data['arches']\<close>, the one for \<^verbatim>\<open>versions\<close> too (lines 120-126).
\<close>

definition make_repo :: "yaml \<Rightarrow> yaml \<Rightarrow> exn + RepoData" where
  "make_repo yaml_data repo =
     bind (bind (subscript repo ''name'') as_str) (\<lambda>name.
     bind (bind (subscript repo ''path'') as_str) (\<lambda>path.
     bind (bind (subscript repo ''name'') as_str) (\<lambda>repo_name_a.
     bind (bind (dict_get repo ''arches'' (YList [])) as_str_list) (\<lambda>repo_attributes_a.
     bind (bind (subscript yaml_data ''arches'') as_str_list) (\<lambda>attributes_a.
     bind (process_repo_attributes repo_name_a repo_attributes_a attributes_a) (\<lambda>arches.
     bind (bind (subscript repo ''name'') as_str) (\<lambda>repo_name_v.
     bind (bind (bind (dict_get repo ''versions'' (YList [])) py_iter) py_strs)
       (\<lambda>repo_attributes_v.
     bind (bind (subscript yaml_data ''arches'') as_str_list) (\<lambda>attributes_v.
     bind (process_repo_attributes repo_name_v repo_attributes_v attributes_v) (\<lambda>versions.
     Inr \<lparr>repo_data_name = name, repo_data_path = path,
          repo_data_arches = arches, repo_data_versions = versions\<rparr>))))))))))"

fun make_repos :: "yaml \<Rightarrow> yaml list \<Rightarrow> exn + RepoData list" where
  "make_repos yaml_data [] = Inr []"
| "make_repos yaml_data (repo # rest) =
     bind (make_repo yaml_data repo) (\<lambda>r.
     bind (make_repos yaml_data rest) (\<lambda>rs. Inr (r # rs)))"

definition build_main_config :: "yaml \<Rightarrow> exn + MainConfig" where
  "build_main_config yaml_data =
     bind (subscript yaml_data ''allowed_outdate'') (\<lambda>ao.
     bind (subscript yaml_data ''mirrors_dir'') (\<lambda>md.
     bind (subscript yaml_data ''versions'') (\<lambda>vs.
     bind (subscript yaml_data ''duplicated_versions'') (\<lambda>dv.
     bind (subscript yaml_data ''arches'') (\<lambda>ar.
     bind (subscript yaml_data ''required_protocols'') (\<lambda>rp.
     bind (bind (bind (subscript yaml_data ''repos'') py_iter) (make_repos yaml_data))
       (\<lambda>rs.
     Inr \<lparr>config_allowed_outdate = ao, config_mirrors_dir = md,
          config_versions = vs, config_duplicated_versions = dv, config_arches = ar,
          config_required_protocols = rp, config_repos = rs\<rparr>)))))))"

text \<open>
  \<^verbatim>\<open>process_main_config\<close> returns the pair \<^verbatim>\<open>(config, None)\<close>, or
  \<^verbatim>\<open>(None, err.message)\<close> when a ValidationError was raised; every other exception
  leaves the function.
\<close>

definition process_main_config ::
  "yaml \<Rightarrow> exn + (MainConfig option \<times> string option)" where
  "process_main_config yaml_data =
     (case build_main_config yaml_data of
        Inr config \<Rightarrow> Inr (Some config, None)
      | Inl (ValidationError message) \<Rightarrow> Inr (None, Some message)
      | Inl e \<Rightarrow> Inl e)"

section \<open>Schema validation and \<^verbatim>\<open>get_config\<close>\<close>

text \<open>
  The JSON schema files are not part of the source. A schema is taken as what
  \<^verbatim>\<open>jsonschema.validate\<close> does with it: \<open>None\<close> when the document is valid, the message
  of the ValidationError otherwise.
\<close>

type_synonym json_schema = "yaml \<Rightarrow> string option"

definition config_validation :: "yaml \<Rightarrow> json_schema \<Rightarrow> bool \<times> string option" where
  "config_validation yaml_data json_schema =
     (case json_schema yaml_data of
        None \<Rightarrow> (True, None)
      | Some message \<Rightarrow> (False, Some message))"

text \<open>The calls of the logger, one constructor for each format string of the source.\<close>

datatype http_failure = ClientError | TimeoutError

datatype log_record =
    Error_main_config_invalid "string option"
  | Error_mirror_config_invalid string "string option"
  | Error_cannot_get_subnets string string
  | Info_checking_mirror string
  | Info_mirror_is_private string
  | Error_no_address string "string list"
  | Error_invalid_repositories string
  | Error_not_available string string string http_failure
  | Info_mirror_is_available string

text \<open>\<^verbatim>\<open>if err_msg:\<close> holds for a message that is neither None nor empty.\<close>

fun truthy :: "string option \<Rightarrow> bool" where
  "truthy None = False"
| "truthy (Some message) = (message \<noteq> [])"

text \<open>
  \<^verbatim>\<open>get_config\<close>: \<open>config_file\<close> is what \<^verbatim>\<open>load_yaml\<close> gives for the path, the document
  or the exception it raises. The result is the returned value (None after a logged
  error) or the exception that leaves the function, with the log.
\<close>

definition get_config ::
  "log_record list \<Rightarrow> exn + yaml \<Rightarrow> json_schema \<Rightarrow>
     (exn + MainConfig option) \<times> log_record list" where
  "get_config logger config_file json_schema =
     (case config_file of
        Inl e \<Rightarrow> (Inl e, logger)
      | Inr config_data \<Rightarrow>
         (case config_validation config_data json_schema of
            (is_valid, err_msg) \<Rightarrow>
              if \<not> is_valid
              then (Inr None, logger @ [Error_main_config_invalid err_msg])
              else
                (case process_main_config config_data of
                   Inl e \<Rightarrow> (Inl e, logger)
                 | Inr (config, err_msg) \<Rightarrow>
                     if truthy err_msg
                     then (Inr None, logger @ [Error_main_config_invalid err_msg])
                     else (Inr config, logger))))"

section \<open>\<^verbatim>\<open>process_mirror_config\<close>\<close>

text \<open>
  \<^verbatim>\<open>MirrorData\<close>, with the fields of the constructor call. \<^verbatim>\<open>urls\<close> is a dictionary
  from protocol type to address, kept in insertion order. The sub-document handed to
  \<^verbatim>\<open>GeoLocationData.load_from_json\<close> (not part of the source) is stored as it is.
\<close>

record MirrorData =
  mirror_info_name :: string
  mirror_info_update_frequency :: yaml
  mirror_info_sponsor_name :: yaml
  mirror_info_sponsor_url :: yaml
  mirror_info_email :: yaml
  mirror_info_urls :: "(string \<times> string) list"
  mirror_info_subnets :: yaml
  mirror_info_asn :: yaml
  mirror_info_cloud_type :: yaml
  mirror_info_cloud_region :: string
  mirror_info_geolocation :: yaml
  mirror_info_private :: bool

text \<open>
  \<^verbatim>\<open>_get_mirror_subnets\<close>: \<open>fetch url\<close> is the JSON body that \<^verbatim>\<open>requests.get(url)\<close>
  delivers, \<open>None\<close> when the request or the decoding raises.
\<close>

definition get_mirror_subnets ::
  "(string \<Rightarrow> yaml option) \<Rightarrow> log_record list \<Rightarrow> yaml \<Rightarrow> string \<Rightarrow>
     yaml \<times> log_record list" where
  "get_mirror_subnets fetch logger subnets_field mirror_name =
     (case subnets_field of
        YStr url \<Rightarrow>
          (case fetch url of
             Some body \<Rightarrow> (body, logger)
           | None \<Rightarrow> (YList [], logger @ [Error_cannot_get_subnets mirror_name url]))
      | _ \<Rightarrow> (subnets_field, logger))"

fun items :: "yaml \<Rightarrow> exn + (string \<times> yaml) list" where
  "items (YDict kvs) = Inr kvs"
| "items _ = Inl AttributeError"

fun as_addresses :: "(string \<times> yaml) list \<Rightarrow> exn + (string \<times> string) list" where
  "as_addresses [] = Inr []"
| "as_addresses (kv # kvs) =
     bind (as_str (snd kv)) (\<lambda>url.
     bind (as_addresses kvs) (\<lambda>rest. Inr ((fst kv, url) # rest)))"

fun as_bool :: "yaml \<Rightarrow> exn + bool" where
  "as_bool (YBool b) = Inr b"
| "as_bool _ = Inl TypeError"

definition process_mirror_config ::
  "(string \<Rightarrow> yaml option) \<Rightarrow> yaml \<Rightarrow> log_record list \<Rightarrow>
     (exn + MirrorData) \<times> log_record list" where
  "process_mirror_config fetch yaml_data logger =
     (case
        bind (bind (subscript yaml_data ''name'') as_str) (\<lambda>name.
        bind (subscript yaml_data ''update_frequency'') (\<lambda>update_frequency.
        bind (subscript yaml_data ''sponsor'') (\<lambda>sponsor.
        bind (subscript yaml_data ''sponsor_url'') (\<lambda>sponsor_url.
        bind (dict_get yaml_data ''email'' (YStr ''unknown'')) (\<lambda>email.
        bind (bind (bind (subscript yaml_data ''address'') items) as_addresses) (\<lambda>urls.
        bind (dict_get yaml_data ''subnets'' (YList [])) (\<lambda>subnets_field.
        bind (bind (subscript yaml_data ''name'') as_str) (\<lambda>mirror_name.
        Inr (name, update_frequency, sponsor, sponsor_url, email, urls,
             subnets_field, mirror_name)))))))))
      of
        Inl e \<Rightarrow> (Inl e, logger)
      | Inr (name, update_frequency, sponsor, sponsor_url, email, urls,
             subnets_field, mirror_name) \<Rightarrow>
          (case get_mirror_subnets fetch logger subnets_field mirror_name of
             (subnets, logger) \<Rightarrow>
               (bind (dict_get yaml_data ''asn'' YNull) (\<lambda>asn.
                bind (dict_get yaml_data ''cloud_type'' (YStr [])) (\<lambda>cloud_type.
                bind (bind (py_iter yaml_data) as_strs) (\<lambda>keys.
                bind (dict_get yaml_data ''geolocation'' (YDict [])) (\<lambda>geolocation.
                bind (bind (dict_get yaml_data ''private'' (YBool False)) as_bool)
                  (\<lambda>private.
                Inr \<lparr>mirror_info_name = name,
                     mirror_info_update_frequency = update_frequency,
                     mirror_info_sponsor_name = sponsor,
                     mirror_info_sponsor_url = sponsor_url,
                     mirror_info_email = email,
                     mirror_info_urls = urls,
                     mirror_info_subnets = subnets,
                     mirror_info_asn = asn,
                     mirror_info_cloud_type = cloud_type,
                     mirror_info_cloud_region = join '','' keys,
                     mirror_info_geolocation = geolocation,
                     mirror_info_private = private\<rparr>))))),
                logger)))"

section \<open>\<^verbatim>\<open>get_mirror_config\<close> and \<^verbatim>\<open>get_mirrors_info\<close>\<close>

text \<open>
  A descriptor file is its name (\<^verbatim>\<open>path_to_config.name\<close>) with what \<^verbatim>\<open>load_yaml\<close>
  gives for it. After the schema check the source calls \<^verbatim>\<open>process_main_config\<close>
  (line 248), so the value returned is a \<^verbatim>\<open>MainConfig\<close>.
\<close>

definition get_mirror_config ::
  "string \<times> (exn + yaml) \<Rightarrow> log_record list \<Rightarrow> json_schema \<Rightarrow>
     (exn + MainConfig option) \<times> log_record list" where
  "get_mirror_config path_to_config logger json_schema =
     (case snd path_to_config of
        Inl e \<Rightarrow> (Inl e, logger)
      | Inr mirror_data \<Rightarrow>
         (case config_validation mirror_data json_schema of
            (is_valid, err_msg) \<Rightarrow>
              if \<not> is_valid
              then (Inr None,
                    logger @ [Error_mirror_config_invalid (fst path_to_config) err_msg])
              else
                (case process_main_config mirror_data of
                   Inl e \<Rightarrow> (Inl e, logger)
                 | Inr (config, err_msg) \<Rightarrow>
                     if truthy err_msg
                     then (Inr None,
                           logger @
                             [Error_mirror_config_invalid (fst path_to_config) err_msg])
                     else (Inr config, logger))))"

text \<open>
  \<^verbatim>\<open>get_mirrors_info\<close>: \<open>mirrors_dir\<close> is the list of the \<^verbatim>\<open>*.yml\<close> files that \<^verbatim>\<open>rglob\<close>
  finds, in the order it yields them.
\<close>

fun get_mirrors_info_loop ::
  "(string \<times> (exn + yaml)) list \<Rightarrow> log_record list \<Rightarrow> json_schema \<Rightarrow>
     MainConfig list \<Rightarrow> (exn + MainConfig list) \<times> log_record list" where
  "get_mirrors_info_loop [] logger json_schema result = (Inr result, logger)"
| "get_mirrors_info_loop (config_path # rest) logger json_schema result =
     (case get_mirror_config config_path logger json_schema of
        (Inl e, logger) \<Rightarrow> (Inl e, logger)
      | (Inr mirror_info, logger) \<Rightarrow>
          get_mirrors_info_loop rest logger json_schema
            (case mirror_info of
               None \<Rightarrow> result
             | Some info \<Rightarrow> result @ [info]))"

definition get_mirrors_info ::
  "(string \<times> (exn + yaml)) list \<Rightarrow> log_record list \<Rightarrow> json_schema \<Rightarrow>
     (exn + MainConfig list) \<times> log_record list" where
  "get_mirrors_info mirrors_dir logger json_schema =
     get_mirrors_info_loop mirrors_dir logger json_schema []"

section \<open>\<^verbatim>\<open>mirror_available\<close>\<close>

text \<open>\<^verbatim>\<open>s.startswith(p)\<close>, \<^verbatim>\<open>s.endswith(p)\<close> and \<^verbatim>\<open>s.replace(old, new)\<close>.\<close>

definition startswith :: "string \<Rightarrow> string \<Rightarrow> bool" where
  "startswith s p = (take (length p) s = p)"

definition endswith :: "string \<Rightarrow> string \<Rightarrow> bool" where
  "endswith s p = (length p \<le> length s \<and> drop (length s - length p) s = p)"

function str_replace :: "string \<Rightarrow> string \<Rightarrow> string \<Rightarrow> string" where
  "str_replace [] old new = (if old = [] then new else [])"
| "str_replace (c # cs) old new =
     (if old = [] then new @ c # str_replace cs old new
      else if startswith (c # cs) old
        then new @ str_replace (drop (length old) (c # cs)) old new
        else c # str_replace cs old new)"
  by pat_completeness auto
termination
  by (relation "measure (\<lambda>(s, old, new). length s)") auto

text \<open>
  \<^verbatim>\<open>os.path.join(a, *p)\<close> of \<^verbatim>\<open>posixpath\<close>: a component that starts with the separator
  replaces what was joined so far; otherwise it is appended, after a separator unless the
  path is empty or ends with one.
\<close>

fun os_path_join :: "string \<Rightarrow> string list \<Rightarrow> string" where
  "os_path_join path [] = path"
| "os_path_join path (b # p) =
     os_path_join
       (if startswith b ''/'' then b
        else if path = [] \<or> endswith path ''/'' then path @ b
        else path @ ''/'' @ b)
       p"

text \<open>
  The HTTP session is what it answers to the requests it has received: it maps the list
  of the URLs requested so far, the current one last, to the outcome of the
  \<^verbatim>\<open>async with http_session.get(...)\<close> block, a response status or one of the two
  exceptions the source catches. The headers and the timeout are constants of every
  request.
\<close>

datatype http_outcome = Status int | Failed http_failure

type_synonym http_session = "string list \<Rightarrow> http_outcome"

text \<open>
  The state of one probe: the local variable \<^verbatim>\<open>arches\<close>, which line 326 assigns, the
  URLs requested so far and the log.
\<close>

record probe_state =
  arches_var :: "string list"
  requested :: "string list"
  logged :: "log_record list"

datatype flow = Raise exn | Return "string \<times> bool" | Proceed

text \<open>\<^verbatim>\<open>repo_data.arches or arches\<close> (line 326) and the check URL (lines 327-333).\<close>

definition effective_arches :: "RepoData \<Rightarrow> string list \<Rightarrow> string list" where
  "effective_arches repo_data arches =
     (if repo_data_arches repo_data \<noteq> [] then repo_data_arches repo_data else arches)"

definition make_check_url :: "string \<Rightarrow> string \<Rightarrow> string \<Rightarrow> string" where
  "make_check_url mirror_url version repo_path =
     os_path_join mirror_url [version, repo_path, ''repodata/repomd.xml'']"

text \<open>The inner loop \<^verbatim>\<open>for repo_data in repos\<close>; \<^verbatim>\<open>arches[0]\<close> raises on the empty list.\<close>

fun check_repos ::
  "http_session \<Rightarrow> string \<Rightarrow> string \<Rightarrow> string \<Rightarrow> RepoData list \<Rightarrow> probe_state \<Rightarrow>
     flow \<times> probe_state" where
  "check_repos http_session mirror_name mirror_url version [] st = (Proceed, st)"
| "check_repos http_session mirror_name mirror_url version (repo_data # rest) st =
     (let arches = effective_arches repo_data (arches_var st);
          st = st\<lparr>arches_var := arches\<rparr>
      in case arches of
           [] \<Rightarrow> (Raise IndexError, st)
         | arch # _ \<Rightarrow>
            (let repo_path = str_replace (repo_data_path repo_data) ''$basearch'' arch;
                 check_url = make_check_url mirror_url version repo_path;
                 st = st\<lparr>requested := requested st @ [check_url]\<rparr>
             in case http_session (requested st) of
                  Status status \<Rightarrow>
                    if status \<noteq> 200
                    then (Return (mirror_name, False),
                          st\<lparr>logged := logged st @
                                [Error_invalid_repositories mirror_name]\<rparr>)
                    else check_repos http_session mirror_name mirror_url version rest st
                | Failed err \<Rightarrow>
                    (Return (mirror_name, False),
                     st\<lparr>logged := logged st @
                           [Error_not_available mirror_name version repo_path err]\<rparr>)))"

text \<open>The outer loop \<^verbatim>\<open>for version in versions\<close>.\<close>

fun check_versions ::
  "http_session \<Rightarrow> string \<Rightarrow> string \<Rightarrow> string list \<Rightarrow> RepoData list \<Rightarrow> probe_state \<Rightarrow>
     flow \<times> probe_state" where
  "check_versions http_session mirror_name mirror_url [] repos st = (Proceed, st)"
| "check_versions http_session mirror_name mirror_url (version # rest) repos st =
     (case check_repos http_session mirror_name mirror_url version repos st of
        (Proceed, st) \<Rightarrow>
          check_versions http_session mirror_name mirror_url rest repos st
      | (Return verdict, st) \<Rightarrow> (Return verdict, st)
      | (Raise e, st) \<Rightarrow> (Raise e, st))"

text \<open>
  \<^verbatim>\<open>next(address for protocol_type, address in urls.items()
  if protocol_type in required_protocols)\<close>; \<open>None\<close> stands for StopIteration.
\<close>

definition select_mirror_url :: "(string \<times> string) list \<Rightarrow> string list \<Rightarrow> string option" where
  "select_mirror_url urls required_protocols =
     (case filter (\<lambda>item. fst item \<in> set required_protocols) urls of
        [] \<Rightarrow> None
      | item # _ \<Rightarrow> Some (snd item))"

text \<open>
  \<^verbatim>\<open>mirror_available\<close>: the pair returned, or the exception that leaves the coroutine,
  with the final state of the probe. The versions are strings, on which \<^verbatim>\<open>str\<close> is the
  identity.
\<close>

definition mirror_available ::
  "MirrorData \<Rightarrow> string list \<Rightarrow> RepoData list \<Rightarrow> http_session \<Rightarrow> string list \<Rightarrow>
     string list \<Rightarrow> log_record list \<Rightarrow> (exn + string \<times> bool) \<times> probe_state" where
  "mirror_available mirror_info versions repos http_session arches required_protocols logger =
     (let mirror_name = mirror_info_name mirror_info;
          st = \<lparr>arches_var = arches, requested = [],
                logged = logger @ [Info_checking_mirror mirror_name]\<rparr>
      in if mirror_info_private mirror_info
         then (Inr (mirror_name, True),
               st\<lparr>logged := logged st @ [Info_mirror_is_private mirror_name]\<rparr>)
         else
           (case select_mirror_url (mirror_info_urls mirror_info) required_protocols of
              None \<Rightarrow>
                (Inr (mirror_name, False),
                 st\<lparr>logged := logged st @
                       [Error_no_address mirror_name required_protocols]\<rparr>)
            | Some mirror_url \<Rightarrow>
                (case check_versions http_session mirror_name mirror_url versions repos st of
                   (Proceed, st) \<Rightarrow>
                     (Inr (mirror_name, True),
                      st\<lparr>logged := logged st @ [Info_mirror_is_available mirror_name]\<rparr>)
                 | (Return verdict, st) \<Rightarrow> (Inr verdict, st)
                 | (Raise e, st) \<Rightarrow> (Inl e, st))))"

section \<open>The probe as a sequence of checks\<close>

text \<open>
  The two nested loops run one body over the pairs of \<open>List.product versions repos\<close>,
  versions outermost. \<open>check_pairs\<close> is that single loop; it is shown equal to
  \<open>check_versions\<close> below.
\<close>

fun check_pairs ::
  "http_session \<Rightarrow> string \<Rightarrow> string \<Rightarrow> (string \<times> RepoData) list \<Rightarrow> probe_state \<Rightarrow>
     flow \<times> probe_state" where
  "check_pairs http_session mirror_name mirror_url [] st = (Proceed, st)"
| "check_pairs http_session mirror_name mirror_url (pair # rest) st =
     (case check_repos http_session mirror_name mirror_url (fst pair) [snd pair] st of
        (Proceed, st) \<Rightarrow> check_pairs http_session mirror_name mirror_url rest st
      | (Return verdict, st) \<Rightarrow> (Return verdict, st)
      | (Raise e, st) \<Rightarrow> (Raise e, st))"

text \<open>
  The check URLs of a list of pairs, in order, when every request succeeds: each pair
  overwrites \<open>arches\<close> as line 326 does, and the list ends before the first pair at which
  \<^verbatim>\<open>arches[0]\<close> raises.
\<close>

fun planned_urls :: "string \<Rightarrow> string list \<Rightarrow> (string \<times> RepoData) list \<Rightarrow> string list" where
  "planned_urls mirror_url arches [] = []"
| "planned_urls mirror_url arches (pair # rest) =
     (case effective_arches (snd pair) arches of
        [] \<Rightarrow> []
      | arch # _ \<Rightarrow>
          make_check_url mirror_url (fst pair)
            (str_replace (repo_data_path (snd pair)) ''$basearch'' arch)
          # planned_urls mirror_url (effective_arches (snd pair) arches) rest)"

text \<open>
  What the session answers when the URLs \<open>us\<close> are requested one after the other, after
  the requests \<open>history\<close>; and the number of answers with status 200 before the first
  other outcome.
\<close>

fun answers :: "http_session \<Rightarrow> string list \<Rightarrow> string list \<Rightarrow> http_outcome list" where
  "answers http_session history [] = []"
| "answers http_session history (u # us) =
     http_session (history @ [u]) # answers http_session (history @ [u]) us"

definition successes :: "http_session \<Rightarrow> string list \<Rightarrow> string list \<Rightarrow> nat" where
  "successes http_session history us =
     length (takeWhile (\<lambda>outcome. outcome = Status 200) (answers http_session history us))"

text \<open>
  The value of the variable \<open>arches\<close> after line 326 at the \<open>i\<close>-th pair: the caller's
  list, overwritten by every repo up to that pair that has arches of its own.
\<close>

definition arches_at :: "string list \<Rightarrow> (string \<times> RepoData) list \<Rightarrow> nat \<Rightarrow> string list" where
  "arches_at arches pairs i =
     foldl (\<lambda>current pair. effective_arches (snd pair) current) arches (take (Suc i) pairs)"

section \<open>Example documents\<close>

definition manifest :: "string list \<Rightarrow> yaml" where
  "manifest repo_versions = YDict
     [(''allowed_outdate'', YStr ''24h''),
      (''mirrors_dir'', YStr ''mirrors.d''),
      (''versions'', YList [YStr ''9'']),
      (''duplicated_versions'', YDict []),
      (''arches'', YList [YStr ''x86_64'']),
      (''required_protocols'', YList [YStr ''https'']),
      (''repos'', YList [YDict
         [(''name'', YStr ''baseos''),
          (''path'', YStr ''$basearch/baseos''),
          (''versions'', YList (map YStr repo_versions))]])]"

definition mirror_descriptor :: yaml where
  "mirror_descriptor = YDict
     [(''name'', YStr ''mirror.example.com''),
      (''update_frequency'', YStr ''1h''),
      (''sponsor'', YStr ''Example''),
      (''sponsor_url'', YStr ''https://example.com''),
      (''address'', YDict [(''https'', YStr ''https://example.com'')])]"

definition example_mirror :: "bool \<Rightarrow> (string \<times> string) list \<Rightarrow> MirrorData" where
  "example_mirror private urls =
     \<lparr>mirror_info_name = ''mirror.example.com'',
      mirror_info_update_frequency = YStr ''1h'',
      mirror_info_sponsor_name = YStr ''Example'',
      mirror_info_sponsor_url = YStr ''https://example.com'',
      mirror_info_email = YStr ''unknown'',
      mirror_info_urls = urls,
      mirror_info_subnets = YList [],
      mirror_info_asn = YNull,
      mirror_info_cloud_type = YStr [],
      mirror_info_cloud_region = [],
      mirror_info_geolocation = YDict [],
      mirror_info_private = private\<rparr>"

definition example_repo :: "string \<Rightarrow> string list \<Rightarrow> RepoData" where
  "example_repo name arches =
     \<lparr>repo_data_name = name,
      repo_data_path = ''$basearch/'' @ name,
      repo_data_arches = arches,
      repo_data_versions = []\<rparr>"

definition https_only :: "(string \<times> string) list" where
  "https_only = [(''https'', ''https://example.com'')]"

section \<open>The nested loops as one loop\<close>

lemma check_repos_Cons:
  "check_repos h n u v (r # rs) st =
     (case check_repos h n u v [r] st of
        (Proceed, st') \<Rightarrow> check_repos h n u v rs st'
      | (Return x, st') \<Rightarrow> (Return x, st')
      | (Raise e, st') \<Rightarrow> (Raise e, st'))"
  by (simp add: Let_def split: list.split http_outcome.split)

lemma check_repos_pairs:
  "check_repos h n u v rs st = check_pairs h n u (map (Pair v) rs) st"
proof (induction rs arbitrary: st)
  case Nil
  show ?case by simp
next
  case (Cons r rs)
  show ?case
    by (subst check_repos_Cons) (simp add: Cons.IH split: prod.split flow.split)
qed

lemma check_pairs_append:
  "check_pairs h n u (ps @ qs) st =
     (case check_pairs h n u ps st of
        (Proceed, st') \<Rightarrow> check_pairs h n u qs st'
      | (Return x, st') \<Rightarrow> (Return x, st')
      | (Raise e, st') \<Rightarrow> (Raise e, st'))"
  by (induction ps arbitrary: st) (simp_all split: prod.split flow.split)

lemma check_versions_pairs:
  "check_versions h n u vs rs st = check_pairs h n u (List.product vs rs) st"
  by (induction vs arbitrary: st)
     (simp_all add: check_pairs_append check_repos_pairs split: prod.split flow.split)

section \<open>What a run requests and returns\<close>

lemma successes_Nil: "successes h pre [] = 0"
  by (simp add: successes_def)

lemma successes_Cons:
  "successes h pre (x # xs) =
     (if h (pre @ [x]) = Status 200 then Suc (successes h (pre @ [x]) xs) else 0)"
  by (simp add: successes_def)

lemma check_pairs_run:
  "check_pairs h n u ps st = (fl, st') \<Longrightarrow>
     requested st' =
       requested st @
         take (Suc (successes h (requested st) (planned_urls u (arches_var st) ps)))
           (planned_urls u (arches_var st) ps)
     \<and> fl =
       (if successes h (requested st) (planned_urls u (arches_var st) ps)
             < length (planned_urls u (arches_var st) ps)
        then Return (n, False)
        else if length (planned_urls u (arches_var st) ps) < length ps
          then Raise IndexError
          else Proceed)"
proof (induction ps arbitrary: st fl st')
  case Nil
  then show ?case by (auto simp: successes_Nil)
next
  case (Cons p ps)
  show ?case
  proof (cases "effective_arches (snd p) (arches_var st)")
    case Nil
    with Cons.prems show ?thesis by (auto simp: Let_def successes_Nil)
  next
    case eff: (Cons arch as)
    let ?url = "make_check_url u (fst p)
                  (str_replace (repo_data_path (snd p)) ''$basearch'' arch)"
    let ?st = "st\<lparr>arches_var := arch # as, requested := requested st @ [?url]\<rparr>"
    show ?thesis
    proof (cases "h (requested st @ [?url]) = Status 200")
      case True
      with Cons.prems eff have run: "check_pairs h n u ps ?st = (fl, st')"
        by (simp add: Let_def)
      from Cons.IH [OF run] eff True show ?thesis
        by (simp add: successes_Cons)
    next
      case False
      with Cons.prems eff show ?thesis
        by (auto simp: Let_def successes_Cons split: http_outcome.splits if_splits)
    qed
  qed
qed

text \<open>
  A probe of a mirror that is not private and has an address \<open>u\<close> for a required
  protocol requests the planned URLs up to the first one that is not answered with
  status 200, and its result is decided by where it stops.
\<close>

lemma mirror_available_run:
  assumes "\<not> mirror_info_private m"
    and "select_mirror_url (mirror_info_urls m) rp = Some u"
  shows "requested (snd (mirror_available m vs rs h arches rp logger)) =
           take (Suc (successes h [] (planned_urls u arches (List.product vs rs))))
             (planned_urls u arches (List.product vs rs))"
    and "fst (mirror_available m vs rs h arches rp logger) =
           (if successes h [] (planned_urls u arches (List.product vs rs))
                 < length (planned_urls u arches (List.product vs rs))
            then Inr (mirror_info_name m, False)
            else if length (planned_urls u arches (List.product vs rs))
                      < length vs * length rs
              then Inl IndexError
              else Inr (mirror_info_name m, True))"
proof -
  let ?st = "\<lparr>arches_var = arches, requested = [],
              logged = logger @ [Info_checking_mirror (mirror_info_name m)]\<rparr>"
  obtain fl st' where
    run: "check_pairs h (mirror_info_name m) u (List.product vs rs) ?st = (fl, st')"
    by (cases "check_pairs h (mirror_info_name m) u (List.product vs rs) ?st")
  from check_pairs_run [OF run]
  have req: "requested st' =
               take (Suc (successes h [] (planned_urls u arches (List.product vs rs))))
                 (planned_urls u arches (List.product vs rs))"
    and fl: "fl =
       (if successes h [] (planned_urls u arches (List.product vs rs))
             < length (planned_urls u arches (List.product vs rs))
        then Return (mirror_info_name m, False)
        else if length (planned_urls u arches (List.product vs rs))
                  < length (List.product vs rs)
          then Raise IndexError
          else Proceed)"
    by simp_all
  from assms run req
  show "requested (snd (mirror_available m vs rs h arches rp logger)) =
           take (Suc (successes h [] (planned_urls u arches (List.product vs rs))))
             (planned_urls u arches (List.product vs rs))"
    by (cases fl) (simp_all add: mirror_available_def Let_def check_versions_pairs)
  from assms run fl
  show "fst (mirror_available m vs rs h arches rp logger) =
           (if successes h [] (planned_urls u arches (List.product vs rs))
                 < length (planned_urls u arches (List.product vs rs))
            then Inr (mirror_info_name m, False)
            else if length (planned_urls u arches (List.product vs rs))
                      < length vs * length rs
              then Inl IndexError
              else Inr (mirror_info_name m, True))"
    by (cases fl)
       (simp_all add: mirror_available_def Let_def check_versions_pairs length_product
          split: if_splits)
qed

lemma length_answers: "length (answers h pre us) = length us"
  by (induction us arbitrary: pre) simp_all

lemma answers_nth:
  "i < length us \<Longrightarrow> answers h pre us ! i = h (pre @ take (Suc i) us)"
proof (induction us arbitrary: pre i)
  case Nil
  then show ?case by simp
next
  case (Cons u us)
  then show ?case by (cases i) simp_all
qed

lemma successes_le: "successes h pre us \<le> length us"
  unfolding successes_def
  by (metis length_answers length_takeWhile_le)

lemma successes_all:
  "(successes h pre us = length us) =
     (\<forall>i<length us. h (pre @ take (Suc i) us) = Status 200)"
proof (induction us arbitrary: pre)
  case Nil
  show ?case by (simp add: successes_Nil)
next
  case (Cons u us)
  show ?case
    by (auto simp: successes_Cons Cons.IH less_Suc_eq_0_disj)
qed

lemma successes_first_failure:
  "i < length us \<Longrightarrow> h (pre @ take (Suc i) us) \<noteq> Status 200 \<Longrightarrow>
   (\<forall>j<i. h (pre @ take (Suc j) us) = Status 200) \<Longrightarrow> successes h pre us = i"
proof (induction us arbitrary: pre i)
  case Nil
  then show ?case by simp
next
  case (Cons u us)
  show ?case
  proof (cases i)
    case 0
    with Cons.prems show ?thesis by (simp add: successes_Cons)
  next
    case (Suc k)
    with Cons.prems have "successes h (pre @ [u]) us = k"
      by (intro Cons.IH) auto
    moreover from Cons.prems Suc have "h (pre @ [u]) = Status 200"
      by (auto dest: spec [of _ 0])
    ultimately show ?thesis using Suc by (simp add: successes_Cons)
  qed
qed

lemma successes_failure:
  "successes h pre us < length us \<Longrightarrow>
     h (pre @ take (Suc (successes h pre us)) us) \<noteq> Status 200"
proof (induction us arbitrary: pre)
  case Nil
  then show ?case by simp
next
  case (Cons u us)
  show ?case
  proof (cases "h (pre @ [u]) = Status 200")
    case True
    with Cons.prems have "successes h (pre @ [u]) us < length us"
      by (simp add: successes_Cons)
    from Cons.IH [OF this] True show ?thesis
      by (simp add: successes_Cons)
  next
    case False
    then show ?thesis by (simp add: successes_Cons)
  qed
qed

lemma successes_cong:
  "(\<And>hist. (h hist = Status 200) = (h' hist = Status 200)) \<Longrightarrow>
     successes h pre us = successes h' pre us"
  by (induction us arbitrary: pre) (simp_all add: successes_Nil successes_Cons)

section \<open>The planned URLs\<close>

lemma effective_arches_nonempty:
  "arches \<noteq> [] \<Longrightarrow> effective_arches r arches \<noteq> []"
  by (simp add: effective_arches_def)

lemma length_planned_urls:
  "arches \<noteq> [] \<Longrightarrow> length (planned_urls u arches ps) = length ps"
proof (induction ps arbitrary: arches)
  case Nil
  show ?case by simp
next
  case (Cons p ps)
  from Cons.prems have "effective_arches (snd p) arches \<noteq> []"
    by (rule effective_arches_nonempty)
  then obtain arch as where eff: "effective_arches (snd p) arches = arch # as"
    by (cases "effective_arches (snd p) arches") auto
  with Cons.IH [of "arch # as"] show ?case
    by simp
qed

lemma length_planned_urls_cases:
  "length (planned_urls u arches ps) =
     (case ps of
        [] \<Rightarrow> 0
      | p # _ \<Rightarrow> if effective_arches (snd p) arches = [] then 0 else length ps)"
proof (cases ps)
  case Nil
  then show ?thesis by simp
next
  case (Cons p qs)
  show ?thesis
  proof (cases "effective_arches (snd p) arches = []")
    case True
    with Cons show ?thesis by simp
  next
    case False
    then obtain arch as where eff: "effective_arches (snd p) arches = arch # as"
      by (cases "effective_arches (snd p) arches") auto
    with Cons length_planned_urls [of "arch # as" u qs]
    show ?thesis by simp
  qed
qed

lemma length_planned_urls_le: "length (planned_urls u arches ps) \<le> length ps"
  by (simp add: length_planned_urls_cases split: list.split)

lemma arches_at_0: "arches_at arches (p # ps) 0 = effective_arches (snd p) arches"
  by (simp add: arches_at_def)

lemma arches_at_Suc:
  "arches_at arches (p # ps) (Suc k) = arches_at (effective_arches (snd p) arches) ps k"
  by (simp add: arches_at_def)

lemma planned_urls_nth:
  "i < length (planned_urls u arches ps) \<Longrightarrow>
     arches_at arches ps i \<noteq> [] \<and>
     planned_urls u arches ps ! i =
       make_check_url u (fst (ps ! i))
         (str_replace (repo_data_path (snd (ps ! i))) ''$basearch''
            (hd (arches_at arches ps i)))"
proof (induction ps arbitrary: arches i)
  case Nil
  then show ?case by simp
next
  case (Cons p ps)
  show ?case
  proof (cases "effective_arches (snd p) arches")
    case Nil
    with Cons.prems show ?thesis by simp
  next
    case eff: (Cons arch as)
    show ?thesis
    proof (cases i)
      case 0
      with eff show ?thesis by (simp add: arches_at_0)
    next
      case (Suc k)
      with Cons.prems eff have "k < length (planned_urls u (arch # as) ps)"
        by simp
      from Cons.IH [OF this] Suc eff show ?thesis by (simp add: arches_at_Suc)
    qed
  qed
qed

lemma select_mirror_url_first:
  assumes "urls = before @ (protocol_type, address) # after"
    and "\<forall>item\<in>set before. fst item \<notin> set rp"
    and "protocol_type \<in> set rp"
  shows "select_mirror_url urls rp = Some address"
proof -
  from assms(2) have "filter (\<lambda>item. fst item \<in> set rp) before = []"
    by (simp add: filter_empty_conv)
  with assms(1,3) show ?thesis
    by (simp add: select_mirror_url_def)
qed

lemma select_mirror_url_none:
  assumes "\<forall>item\<in>set urls. fst item \<notin> set rp"
  shows "select_mirror_url urls rp = None"
proof -
  from assms have "filter (\<lambda>item. fst item \<in> set rp) urls = []"
    by (simp add: filter_empty_conv)
  then show ?thesis by (simp add: select_mirror_url_def)
qed

section \<open>The check URL of plain components\<close>

text \<open>
  When no component is empty or begins or ends with the separator, \<^verbatim>\<open>os.path.join\<close>
  puts one separator between the components.
\<close>

lemma endswith_slash: "endswith s ''/'' = (s \<noteq> [] \<and> last s = CHR ''/'')"
  by (cases s rule: rev_cases) (simp_all add: endswith_def)

lemma startswith_slash: "startswith s ''/'' = (s \<noteq> [] \<and> hd s = CHR ''/'')"
  by (cases s) (simp_all add: startswith_def)

lemma make_check_url_plain:
  assumes "mirror_url \<noteq> []" and "last mirror_url \<noteq> CHR ''/''"
    and "version \<noteq> []" and "hd version \<noteq> CHR ''/''" and "last version \<noteq> CHR ''/''"
    and "repo_path \<noteq> []" and "hd repo_path \<noteq> CHR ''/''" and "last repo_path \<noteq> CHR ''/''"
  shows "make_check_url mirror_url version repo_path =
           mirror_url @ ''/'' @ version @ ''/'' @ repo_path @ ''/repodata/repomd.xml''"
  using assms
  by (simp add: make_check_url_def endswith_slash startswith_slash)

section \<open>The loader\<close>

text \<open>
  C1. The claim: every accepted manifest has each repo's \<open>versions\<close> within the
  top-level \<open>versions\<close>, and a repo version outside that list is rejected with a
  ValidationError. The source checks the repo versions against the top-level \<open>arches\<close>
  (line 125). With top-level versions \<open>["9"]\<close> and arches \<open>["x86_64"]\<close>, the manifest
  whose repo lists version \<open>"x86_64"\<close> is accepted, its repo keeping a version that is
  not in the top-level list, and the manifest whose repo lists version \<open>"9"\<close> is
  rejected; \<^verbatim>\<open>get_config\<close>, under a schema that accepts both, returns the first
  configuration and logs the error for the second.
\<close>

theorem process_main_config_versions_against_arches:
  "process_main_config (manifest [''x86_64'']) =
     Inr (Some \<lparr>config_allowed_outdate = YStr ''24h'',
                config_mirrors_dir = YStr ''mirrors.d'',
                config_versions = YList [YStr ''9''],
                config_duplicated_versions = YDict [],
                config_arches = YList [YStr ''x86_64''],
                config_required_protocols = YList [YStr ''https''],
                config_repos =
                  [\<lparr>repo_data_name = ''baseos'',
                    repo_data_path = ''$basearch/baseos'',
                    repo_data_arches = [],
                    repo_data_versions = [''x86_64'']\<rparr>]\<rparr>,
          None)
   \<and> process_main_config (manifest [''9'']) =
     Inr (None,
          Some ''Attr \"9\" of repo \"baseos\" is absent in the main list of attrs \"x86_64\"'')
   \<and> (case get_config [] (Inr (manifest [''x86_64''])) (\<lambda>document. None) of
        (Inr (Some config), logger) \<Rightarrow>
          config_versions config = YList [YStr ''9''] \<and>
          map repo_data_versions (config_repos config) = [[''x86_64'']] \<and>
          logger = []
      | _ \<Rightarrow> False)
   \<and> get_config [] (Inr (manifest [''9''])) (\<lambda>document. None) =
     (Inr None,
      [Error_main_config_invalid
         (Some ''Attr \"9\" of repo \"baseos\" is absent in the main list of attrs \"x86_64\"'')])"
  by (simp add: get_config_def config_validation_def process_main_config_def
        build_main_config_def make_repo_def manifest_def bind_def as_str_list_def
        process_repo_attributes_def absent_message_def)

text \<open>
  C2. The claim: discovery builds a \<open>MirrorData\<close> from every descriptor that passes
  the mirror schema, and a failing file is skipped. The source hands the descriptor to
  \<^verbatim>\<open>process_main_config\<close> (line 248): for a descriptor with the fields of a mirror, which
  \<^verbatim>\<open>process_mirror_config\<close> turns into a \<open>MirrorData\<close>, and a schema that accepts it, the
  lookup of \<^verbatim>\<open>allowed_outdate\<close> raises KeyError, and the exception ends the discovery of
  the whole directory, whatever other files it holds.
\<close>

theorem get_mirrors_info_key_error:
  "get_mirrors_info ((''mirror.yml'', Inr mirror_descriptor) # other_files) []
       (\<lambda>document. None) =
     (Inl (KeyError ''allowed_outdate''), [])
   \<and> fst (process_mirror_config fetch mirror_descriptor []) =
       Inr \<lparr>mirror_info_name = ''mirror.example.com'',
            mirror_info_update_frequency = YStr ''1h'',
            mirror_info_sponsor_name = YStr ''Example'',
            mirror_info_sponsor_url = YStr ''https://example.com'',
            mirror_info_email = YStr ''unknown'',
            mirror_info_urls = [(''https'', ''https://example.com'')],
            mirror_info_subnets = YList [],
            mirror_info_asn = YNull,
            mirror_info_cloud_type = YStr [],
            mirror_info_cloud_region = ''name,update_frequency,sponsor,sponsor_url,address'',
            mirror_info_geolocation = YDict [],
            mirror_info_private = False\<rparr>"
  by (simp add: get_mirrors_info_def get_mirror_config_def config_validation_def
        process_main_config_def build_main_config_def mirror_descriptor_def bind_def
        process_mirror_config_def get_mirror_subnets_def)

section \<open>The probe\<close>

text \<open>
  C3. The claim: the architecture put into a repo's path is the first of the repo's
  own \<open>arches\<close> or else the first of the caller's default, whatever repos came before.
  Line 326 assigns the chosen list to the variable \<open>arches\<close> itself, so a repo without
  arches that follows a repo with arches \<open>["aarch64"]\<close> is checked for \<open>aarch64\<close>
  although the caller's default is \<open>["x86_64"]\<close>.
\<close>

theorem mirror_available_arches_overwritten:
  "requested (snd (mirror_available (example_mirror False https_only) [''9'']
       [example_repo ''appstream'' [''aarch64''], example_repo ''baseos'' []]
       (\<lambda>history. Status 200) [''x86_64''] [''https''] [])) =
     [''https://example.com/9/aarch64/appstream/repodata/repomd.xml'',
      ''https://example.com/9/aarch64/baseos/repodata/repomd.xml'']"
  by (simp add: mirror_available_def example_mirror_def https_only_def example_repo_def
        select_mirror_url_def effective_arches_def make_check_url_def startswith_def
        endswith_def Let_def)

text \<open>
  C5. A private mirror is reported available at once: the result is \<open>(name, True)\<close>,
  no URL is requested, and the log gains the two info records.
\<close>

theorem mirror_available_private:
  assumes "mirror_info_private mirror_info"
  shows "mirror_available mirror_info versions repos http_session arches
           required_protocols logger =
         (Inr (mirror_info_name mirror_info, True),
          \<lparr>arches_var = arches, requested = [],
           logged = logger @ [Info_checking_mirror (mirror_info_name mirror_info),
                              Info_mirror_is_private (mirror_info_name mirror_info)]\<rparr>)"
  using assms by (simp add: mirror_available_def Let_def)

theorem mirror_available_private_witness:
  "mirror_info_private (example_mirror True https_only)
   \<and> fst (mirror_available (example_mirror True https_only) [''9'']
        [example_repo ''baseos'' []] (\<lambda>history. Failed TimeoutError) [] [''rsync''] []) =
     Inr (''mirror.example.com'', True)
   \<and> requested (snd (mirror_available (example_mirror True https_only) [''9'']
        [example_repo ''baseos'' []] (\<lambda>history. Failed TimeoutError) [] [''rsync''] [])) = []"
proof -
  have is_private: "mirror_info_private (example_mirror True https_only)"
    by (simp add: example_mirror_def)
  from mirror_available_private [OF is_private] is_private show ?thesis
    by (simp add: example_mirror_def)
qed

text \<open>
  C4. For a mirror that is not private and has an address for a required protocol, the
  probe is a short-circuit conjunction over the pairs of versions (outer) and repos
  (inner). With \<open>us\<close> the check URLs of the pairs in that order: if the \<open>i\<close>-th check is
  the first that is not answered with status 200 (another status, a client error or a
  timeout), the result is \<open>(name, False)\<close> and exactly the first \<open>i + 1\<close> URLs were
  requested; and the result is \<open>(name, True)\<close> exactly when \<open>us\<close> covers all pairs and
  every check was answered with status 200, all of \<open>us\<close> having been requested.
\<close>

theorem mirror_available_short_circuit:
  fixes mirror_url :: string and arches versions required_protocols :: "string list"
    and repos :: "RepoData list" and http_session :: http_session
    and logger :: "log_record list"
  assumes not_private: "\<not> mirror_info_private mirror_info"
    and selected:
      "select_mirror_url (mirror_info_urls mirror_info) required_protocols = Some mirror_url"
  defines "us \<equiv> planned_urls mirror_url arches (List.product versions repos)"
    and "R \<equiv> mirror_available mirror_info versions repos http_session arches
               required_protocols logger"
  shows "(\<forall>i<length us.
            http_session (take (Suc i) us) \<noteq> Status 200 \<and>
            (\<forall>j<i. http_session (take (Suc j) us) = Status 200) \<longrightarrow>
            fst R = Inr (mirror_info_name mirror_info, False) \<and>
            requested (snd R) = take (Suc i) us)
       \<and> ((fst R = Inr (mirror_info_name mirror_info, True)) =
            (length us = length versions * length repos \<and>
             (\<forall>i<length us. http_session (take (Suc i) us) = Status 200)))
       \<and> (fst R = Inr (mirror_info_name mirror_info, True) \<longrightarrow> requested (snd R) = us)"
proof -
  let ?k = "successes http_session [] us"
  have req: "requested (snd R) = take (Suc ?k) us"
    unfolding us_def R_def by (rule mirror_available_run(1) [OF not_private selected])
  have res: "fst R =
       (if ?k < length us then Inr (mirror_info_name mirror_info, False)
        else if length us < length versions * length repos then Inl IndexError
        else Inr (mirror_info_name mirror_info, True))"
    unfolding us_def R_def by (rule mirror_available_run(2) [OF not_private selected])
  have le: "?k \<le> length us"
    by (rule successes_le)
  have total: "length us \<le> length versions * length repos"
    unfolding us_def using length_planned_urls_le [of mirror_url arches "List.product versions repos"]
    by (simp add: length_product)
  have all: "(?k = length us) =
               (\<forall>i<length us. http_session (take (Suc i) us) = Status 200)"
    using successes_all [of http_session "[]" us] by simp
  have first: "fst R = Inr (mirror_info_name mirror_info, False) \<and>
               requested (snd R) = take (Suc i) us"
    if "i < length us" "http_session (take (Suc i) us) \<noteq> Status 200"
      "\<forall>j<i. http_session (take (Suc j) us) = Status 200" for i
  proof -
    from that have "?k = i"
      by (intro successes_first_failure) simp_all
    with that(1) req res show ?thesis by simp
  qed
  have true: "(fst R = Inr (mirror_info_name mirror_info, True)) =
            (length us = length versions * length repos \<and>
             (\<forall>i<length us. http_session (take (Suc i) us) = Status 200))"
    using res le total all by (auto split: if_splits)
  have full: "requested (snd R) = us" if "fst R = Inr (mirror_info_name mirror_info, True)"
  proof -
    from that res le have "?k = length us"
      by (auto split: if_splits)
    with req show ?thesis by simp
  qed
  from first true full show ?thesis by blast
qed

theorem mirror_available_short_circuit_witness:
  "\<not> mirror_info_private (example_mirror False https_only)
   \<and> select_mirror_url (mirror_info_urls (example_mirror False https_only)) [''https''] =
       Some ''https://example.com''
   \<and> fst (mirror_available (example_mirror False https_only) [''8'', ''9'']
        [example_repo ''baseos'' [], example_repo ''appstream'' []]
        (\<lambda>history. if length history = 3 then Status 404 else Status 200)
        [''x86_64''] [''https''] []) = Inr (''mirror.example.com'', False)
   \<and> requested (snd (mirror_available (example_mirror False https_only) [''8'', ''9'']
        [example_repo ''baseos'' [], example_repo ''appstream'' []]
        (\<lambda>history. if length history = 3 then Status 404 else Status 200)
        [''x86_64''] [''https''] [])) =
       [''https://example.com/8/x86_64/baseos/repodata/repomd.xml'',
        ''https://example.com/8/x86_64/appstream/repodata/repomd.xml'',
        ''https://example.com/9/x86_64/baseos/repodata/repomd.xml'']"
proof -
  let ?m = "example_mirror False https_only"
  let ?h = "\<lambda>history :: string list. if length history = 3 then Status 404 else Status 200"
  let ?repos = "[example_repo ''baseos'' [], example_repo ''appstream'' []]"
  have not_private: "\<not> mirror_info_private ?m"
    by (simp add: example_mirror_def)
  have selected: "select_mirror_url (mirror_info_urls ?m) [''https''] = Some ''https://example.com''"
    by (simp add: example_mirror_def https_only_def select_mirror_url_def)
  have us: "planned_urls ''https://example.com'' [''x86_64''] (List.product [''8'', ''9''] ?repos) =
       [''https://example.com/8/x86_64/baseos/repodata/repomd.xml'',
        ''https://example.com/8/x86_64/appstream/repodata/repomd.xml'',
        ''https://example.com/9/x86_64/baseos/repodata/repomd.xml'',
        ''https://example.com/9/x86_64/appstream/repodata/repomd.xml'']"
    by (simp add: example_repo_def effective_arches_def make_check_url_def startswith_def
          endswith_def)
  have name: "mirror_info_name ?m = ''mirror.example.com''"
    by (simp add: example_mirror_def)
  note inst = mirror_available_short_circuit [OF not_private selected,
      where arches = "[''x86_64'']" and versions = "[''8'', ''9'']" and repos = ?repos
        and http_session = ?h and logger = "[]", unfolded us name]
  from inst have
    "fst (mirror_available ?m [''8'', ''9''] ?repos ?h [''x86_64''] [''https''] []) =
       Inr (''mirror.example.com'', False) \<and>
     requested (snd (mirror_available ?m [''8'', ''9''] ?repos ?h [''x86_64''] [''https''] [])) =
       take (Suc 2)
         [''https://example.com/8/x86_64/baseos/repodata/repomd.xml'',
          ''https://example.com/8/x86_64/appstream/repodata/repomd.xml'',
          ''https://example.com/9/x86_64/baseos/repodata/repomd.xml'',
          ''https://example.com/9/x86_64/appstream/repodata/repomd.xml'']"
    by (elim conjE allE [of _ 2]) (simp add: less_Suc_eq)
  with not_private selected show ?thesis
    by (simp add: numeral_2_eq_2)
qed

text \<open>
  C6. For a mirror that is not private: if no key of \<open>urls\<close> is a required protocol,
  the result is \<open>(name, False)\<close> and nothing is requested; and if \<open>protocol_type\<close> is
  the first key of \<open>urls\<close>, in the order of the dictionary, that is a required protocol,
  its address is the one selected, and the requests of the probe are the check URLs
  built on that address.
\<close>

theorem mirror_available_protocol_selection:
  assumes not_private: "\<not> mirror_info_private mirror_info"
  shows "((\<forall>item\<in>set (mirror_info_urls mirror_info). fst item \<notin> set required_protocols) \<longrightarrow>
            mirror_available mirror_info versions repos http_session arches
              required_protocols logger =
            (Inr (mirror_info_name mirror_info, False),
             \<lparr>arches_var = arches, requested = [],
              logged = logger @
                [Info_checking_mirror (mirror_info_name mirror_info),
                 Error_no_address (mirror_info_name mirror_info) required_protocols]\<rparr>))
       \<and> (mirror_info_urls mirror_info = before @ (protocol_type, address) # after \<and>
          (\<forall>item\<in>set before. fst item \<notin> set required_protocols) \<and>
          protocol_type \<in> set required_protocols \<longrightarrow>
            select_mirror_url (mirror_info_urls mirror_info) required_protocols = Some address \<and>
            requested (snd (mirror_available mirror_info versions repos http_session arches
                              required_protocols logger)) =
              take (Suc (successes http_session []
                           (planned_urls address arches (List.product versions repos))))
                (planned_urls address arches (List.product versions repos)))"
proof (intro conjI impI)
  assume "\<forall>item\<in>set (mirror_info_urls mirror_info). fst item \<notin> set required_protocols"
  then have "select_mirror_url (mirror_info_urls mirror_info) required_protocols = None"
    by (rule select_mirror_url_none)
  with not_private
  show "mirror_available mirror_info versions repos http_session arches
          required_protocols logger =
        (Inr (mirror_info_name mirror_info, False),
         \<lparr>arches_var = arches, requested = [],
          logged = logger @
            [Info_checking_mirror (mirror_info_name mirror_info),
             Error_no_address (mirror_info_name mirror_info) required_protocols]\<rparr>)"
    by (simp add: mirror_available_def Let_def)
next
  assume first: "mirror_info_urls mirror_info = before @ (protocol_type, address) # after \<and>
          (\<forall>item\<in>set before. fst item \<notin> set required_protocols) \<and>
          protocol_type \<in> set required_protocols"
  then show selected:
    "select_mirror_url (mirror_info_urls mirror_info) required_protocols = Some address"
    by (intro select_mirror_url_first [of _ before protocol_type address after]) simp_all
  show "requested (snd (mirror_available mirror_info versions repos http_session arches
                          required_protocols logger)) =
          take (Suc (successes http_session []
                       (planned_urls address arches (List.product versions repos))))
            (planned_urls address arches (List.product versions repos))"
    by (rule mirror_available_run(1) [OF not_private selected])
qed

theorem mirror_available_protocol_selection_witness:
  "\<not> mirror_info_private
        (example_mirror False
           [(''rsync'', ''rsync://example.com''), (''http'', ''http://example.com''),
            (''https'', ''https://example.com'')])
   \<and> requested (snd (mirror_available
        (example_mirror False
           [(''rsync'', ''rsync://example.com''), (''http'', ''http://example.com''),
            (''https'', ''https://example.com'')])
        [''9''] [example_repo ''baseos'' []] (\<lambda>history. Status 200) [''x86_64'']
        [''https'', ''http''] [])) =
       [''http://example.com/9/x86_64/baseos/repodata/repomd.xml'']
   \<and> fst (mirror_available
        (example_mirror False
           [(''rsync'', ''rsync://example.com''), (''http'', ''http://example.com''),
            (''https'', ''https://example.com'')])
        [''9''] [example_repo ''baseos'' []] (\<lambda>history. Status 200) [''x86_64'']
        [''ftp''] []) = Inr (''mirror.example.com'', False)
   \<and> requested (snd (mirror_available
        (example_mirror False
           [(''rsync'', ''rsync://example.com''), (''http'', ''http://example.com''),
            (''https'', ''https://example.com'')])
        [''9''] [example_repo ''baseos'' []] (\<lambda>history. Status 200) [''x86_64'']
        [''ftp''] [])) = []"
proof -
  let ?urls = "[(''rsync'', ''rsync://example.com''), (''http'', ''http://example.com''),
                (''https'', ''https://example.com'')]"
  let ?m = "example_mirror False ?urls"
  let ?h = "\<lambda>history :: string list. Status 200"
  have not_private: "\<not> mirror_info_private ?m"
    by (simp add: example_mirror_def)
  have urls: "mirror_info_urls ?m =
      [(''rsync'', ''rsync://example.com'')] @ (''http'', ''http://example.com'') #
      [(''https'', ''https://example.com'')]"
    by (simp add: example_mirror_def)
  have us: "planned_urls ''http://example.com'' [''x86_64'']
              (List.product [''9''] [example_repo ''baseos'' []]) =
            [''http://example.com/9/x86_64/baseos/repodata/repomd.xml'']"
    by (simp add: example_repo_def effective_arches_def make_check_url_def startswith_def
          endswith_def)
  note first = mirror_available_protocol_selection [OF not_private,
      where required_protocols = "[''https'', ''http'']" and before = "[(''rsync'', ''rsync://example.com'')]"
        and protocol_type = "''http''" and address = "''http://example.com''"
        and after = "[(''https'', ''https://example.com'')]"
        and versions = "[''9'']" and repos = "[example_repo ''baseos'' []]"
        and http_session = ?h and arches = "[''x86_64'']" and logger = "[]",
      THEN conjunct2, unfolded us]
  note none = mirror_available_protocol_selection [OF not_private,
      where required_protocols = "[''ftp'']"
        and versions = "[''9'']" and repos = "[example_repo ''baseos'' []]"
        and http_session = ?h and arches = "[''x86_64'']" and logger = "[]",
      THEN conjunct1]
  from first urls have
    "requested (snd (mirror_available ?m [''9''] [example_repo ''baseos'' []] ?h [''x86_64'']
                       [''https'', ''http''] [])) =
       [''http://example.com/9/x86_64/baseos/repodata/repomd.xml'']"
    by (simp add: successes_Cons successes_Nil)
  moreover from none have
    "mirror_available ?m [''9''] [example_repo ''baseos'' []] ?h [''x86_64''] [''ftp''] [] =
       (Inr (mirror_info_name ?m, False),
        \<lparr>arches_var = [''x86_64''], requested = [],
         logged = [] @ [Info_checking_mirror (mirror_info_name ?m),
                        Error_no_address (mirror_info_name ?m) [''ftp'']]\<rparr>)"
    by (simp add: example_mirror_def)
  ultimately show ?thesis using not_private
    by (simp add: example_mirror_def)
qed

text \<open>
  C9. For a mirror that is not private and has an address for a required protocol, an
  empty list of versions or of repos gives \<open>(name, True)\<close> without any request.
\<close>

theorem mirror_available_nothing_to_check:
  assumes not_private: "\<not> mirror_info_private mirror_info"
    and selected:
      "select_mirror_url (mirror_info_urls mirror_info) required_protocols = Some mirror_url"
    and empty: "versions = [] \<or> repos = []"
  shows "fst (mirror_available mirror_info versions repos http_session arches
                required_protocols logger) = Inr (mirror_info_name mirror_info, True)
       \<and> requested (snd (mirror_available mirror_info versions repos http_session arches
                required_protocols logger)) = []"
proof -
  have "List.product vs ([] :: RepoData list) = []" for vs :: "string list"
    by (induction vs) simp_all
  with empty have "List.product versions repos = []"
    by auto
  with mirror_available_run [OF not_private selected,
      of versions repos http_session arches logger] empty
  show ?thesis
    by (auto simp: successes_Nil)
qed

theorem mirror_available_nothing_to_check_witness:
  "\<not> mirror_info_private (example_mirror False https_only)
   \<and> select_mirror_url (mirror_info_urls (example_mirror False https_only)) [''https''] =
       Some ''https://example.com''
   \<and> fst (mirror_available (example_mirror False https_only) [''8'', ''9''] []
        (\<lambda>history. Failed ClientError) [] [''https''] []) = Inr (''mirror.example.com'', True)
   \<and> requested (snd (mirror_available (example_mirror False https_only) [''8'', ''9''] []
        (\<lambda>history. Failed ClientError) [] [''https''] [])) = []"
proof -
  let ?m = "example_mirror False https_only"
  have not_private: "\<not> mirror_info_private ?m"
    by (simp add: example_mirror_def)
  have selected: "select_mirror_url (mirror_info_urls ?m) [''https''] = Some ''https://example.com''"
    by (simp add: example_mirror_def https_only_def select_mirror_url_def)
  have empty: "[''8'', ''9''] = [] \<or> ([] :: RepoData list) = []"
    by simp
  have name: "mirror_info_name ?m = ''mirror.example.com''"
    by (simp add: example_mirror_def)
  from mirror_available_nothing_to_check [OF not_private selected empty,
      of "\<lambda>history. Failed ClientError" "[]" "[]"] not_private selected name
  show ?thesis by simp
qed

text \<open>
  C7. For a mirror that is not private and has the address \<open>mirror_url\<close> for a required
  protocol, the \<open>i\<close>-th request of the probe belongs to the \<open>i\<close>-th pair of versions
  (outer) and repos (inner), and its URL is \<^verbatim>\<open>os.path.join\<close> of the address, the version,
  the repo path with \<^verbatim>\<open>$basearch\<close> replaced by the first element of the current arch
  list, and \<^verbatim>\<open>repodata/repomd.xml\<close>. The witness is the scenario of the specification,
  whose check URL is \<^verbatim>\<open>https://example.com/9/x86_64/baseos/repodata/repomd.xml\<close>.
\<close>

theorem mirror_available_check_url:
  assumes not_private: "\<not> mirror_info_private mirror_info"
    and selected:
      "select_mirror_url (mirror_info_urls mirror_info) required_protocols = Some mirror_url"
    and issued:
      "i < length (requested (snd (mirror_available mirror_info versions repos http_session
                                     arches required_protocols logger)))"
  shows "i < length versions * length repos
       \<and> arches_at arches (List.product versions repos) i \<noteq> []
       \<and> requested (snd (mirror_available mirror_info versions repos http_session arches
                            required_protocols logger)) ! i =
           os_path_join mirror_url
             [versions ! (i div length repos),
              str_replace (repo_data_path (repos ! (i mod length repos))) ''$basearch''
                (hd (arches_at arches (List.product versions repos) i)),
              ''repodata/repomd.xml'']"
proof -
  let ?ps = "List.product versions repos"
  let ?us = "planned_urls mirror_url arches ?ps"
  let ?req = "requested (snd (mirror_available mirror_info versions repos http_session
                                arches required_protocols logger))"
  have req: "?req = take (Suc (successes http_session [] ?us)) ?us"
    by (rule mirror_available_run(1) [OF not_private selected])
  with issued have planned: "i < length ?us" and nth: "?req ! i = ?us ! i"
    by simp_all
  from planned length_planned_urls_le [of mirror_url arches ?ps]
  have bound: "i < length versions * length repos"
    by (simp add: length_product)
  then have pair: "?ps ! i = (versions ! (i div length repos), repos ! (i mod length repos))"
    by (rule product_nth)
  from planned_urls_nth [OF planned] nth pair bound show ?thesis
    by (simp add: make_check_url_def)
qed

theorem mirror_available_check_url_witness:
  "\<not> mirror_info_private (example_mirror False https_only)
   \<and> select_mirror_url (mirror_info_urls (example_mirror False https_only)) [''https''] =
       Some ''https://example.com''
   \<and> requested (snd (mirror_available (example_mirror False https_only) [''9'']
        [example_repo ''baseos'' []] (\<lambda>history. Status 200) [''x86_64''] [''https''] [])) ! 0 =
       ''https://example.com/9/x86_64/baseos/repodata/repomd.xml''"
proof -
  let ?m = "example_mirror False https_only"
  let ?h = "\<lambda>history :: string list. Status 200"
  have not_private: "\<not> mirror_info_private ?m"
    by (simp add: example_mirror_def)
  have selected: "select_mirror_url (mirror_info_urls ?m) [''https''] = Some ''https://example.com''"
    by (simp add: example_mirror_def https_only_def select_mirror_url_def)
  have issued: "0 < length (requested (snd (mirror_available ?m [''9'']
        [example_repo ''baseos'' []] ?h [''x86_64''] [''https''] [])))"
    by (simp add: mirror_available_def example_mirror_def https_only_def example_repo_def
          select_mirror_url_def effective_arches_def Let_def)
  have current: "arches_at [''x86_64''] (List.product [''9''] [example_repo ''baseos'' []]) 0 =
                   [''x86_64'']"
    by (simp add: arches_at_def effective_arches_def example_repo_def)
  from mirror_available_check_url [OF not_private selected issued, unfolded current]
  have "requested (snd (mirror_available ?m [''9''] [example_repo ''baseos'' []] ?h
                          [''x86_64''] [''https''] [])) ! 0 =
          os_path_join ''https://example.com''
            [''9'', str_replace (repo_data_path (example_repo ''baseos'' [])) ''$basearch'' ''x86_64'',
             ''repodata/repomd.xml'']"
    by simp
  with not_private selected show ?thesis
    by (simp add: example_repo_def startswith_def endswith_def)
qed

text \<open>
  C8. The result does not tell the kinds of failure apart. Two sessions that agree on
  which requests are answered with status 200, whatever they answer otherwise (another
  status, a client error or a timeout), give the same result and the same requests; and
  whenever a request of the probe gets an outcome other than status 200, the result is
  \<open>(name, False)\<close>, as it is when no address has a required protocol.
\<close>

theorem mirror_available_failure_kind:
  assumes agree:
    "\<forall>history. (http_session history = Status 200) = (http_session' history = Status 200)"
  shows "fst (mirror_available mirror_info versions repos http_session arches
                required_protocols logger) =
         fst (mirror_available mirror_info versions repos http_session' arches
                required_protocols logger)
       \<and> requested (snd (mirror_available mirror_info versions repos http_session arches
                required_protocols logger)) =
         requested (snd (mirror_available mirror_info versions repos http_session' arches
                required_protocols logger))
       \<and> (\<forall>i<length (requested (snd (mirror_available mirror_info versions repos
                                        http_session arches required_protocols logger))).
            http_session
              (take (Suc i)
                 (requested (snd (mirror_available mirror_info versions repos http_session
                                    arches required_protocols logger)))) \<noteq> Status 200 \<longrightarrow>
            fst (mirror_available mirror_info versions repos http_session arches
                   required_protocols logger) = Inr (mirror_info_name mirror_info, False))"
proof (cases "mirror_info_private mirror_info")
  case True
  then show ?thesis by (simp add: mirror_available_def Let_def)
next
  case not_private: False
  show ?thesis
  proof (cases "select_mirror_url (mirror_info_urls mirror_info) required_protocols")
    case None
    with not_private show ?thesis by (simp add: mirror_available_def Let_def)
  next
    case (Some mirror_url)
    let ?us = "planned_urls mirror_url arches (List.product versions repos)"
    let ?k = "successes http_session [] ?us"
    from agree have same: "successes http_session [] ?us = successes http_session' [] ?us"
      by (intro successes_cong) simp
    note run = mirror_available_run [OF not_private Some, of versions repos _ arches logger]
    have "fst (mirror_available mirror_info versions repos http_session arches
                 required_protocols logger) = Inr (mirror_info_name mirror_info, False)"
      if i: "i < length (take (Suc ?k) ?us)"
        and bad: "http_session (take (Suc i) (take (Suc ?k) ?us)) \<noteq> Status 200" for i
    proof -
      have "?k < length ?us"
      proof (rule ccontr)
        assume "\<not> ?k < length ?us"
        with successes_le [of http_session "[]" ?us] have all: "?k = length ?us"
          by simp
        with i have "i < length ?us" by simp
        with all successes_all [of http_session "[]" ?us]
        have "http_session (take (Suc i) ?us) = Status 200"
          by simp
        with bad all show False by simp
      qed
      with run(2) [of http_session] show ?thesis by simp
    qed
    with run [of http_session] run [of http_session'] same show ?thesis
      by simp
  qed
qed

theorem mirror_available_failure_kind_witness:
  "(\<forall>history :: string list.
       ((Failed TimeoutError :: http_outcome) = Status 200) =
       ((Failed ClientError :: http_outcome) = Status 200))
   \<and> fst (mirror_available (example_mirror False https_only) [''9'']
        [example_repo ''baseos'' []] (\<lambda>history. Failed TimeoutError) [''x86_64'']
        [''https''] []) = Inr (''mirror.example.com'', False)
   \<and> fst (mirror_available (example_mirror False https_only) [''9'']
        [example_repo ''baseos'' []] (\<lambda>history. Failed ClientError) [''x86_64'']
        [''https''] []) = Inr (''mirror.example.com'', False)"
proof -
  let ?m = "example_mirror False https_only"
  have agree: "\<forall>history :: string list.
       ((\<lambda>history. Failed TimeoutError) history = Status 200) =
       ((\<lambda>history. Failed ClientError) history = Status 200)"
    by simp
  have timeout: "fst (mirror_available ?m [''9''] [example_repo ''baseos'' []]
        (\<lambda>history. Failed TimeoutError) [''x86_64''] [''https''] []) =
      Inr (''mirror.example.com'', False)"
    by (simp add: mirror_available_def example_mirror_def https_only_def example_repo_def
          select_mirror_url_def effective_arches_def Let_def)
  from mirror_available_failure_kind [OF agree, of ?m "[''9'']" "[example_repo ''baseos'' []]"
      "[''x86_64'']" "[''https'']" "[]", THEN conjunct1] timeout
  have "fst (mirror_available ?m [''9''] [example_repo ''baseos'' []]
        (\<lambda>history. Failed ClientError) [''x86_64''] [''https''] []) =
      Inr (''mirror.example.com'', False)"
    by simp
  with timeout show ?thesis by simp
qed

text \<open>
  C10. The probe returns a result only when \<^verbatim>\<open>arches[0]\<close> exists at every repo it
  reaches. In the loop, a repo without arches met while the current arch list is empty
  raises IndexError. For a mirror that is not private and has an address for a required
  protocol, the probe raises IndexError exactly when there is a version to check, the
  first repo has no arches and the caller's arch list is empty (any repo with arches
  makes the current list non-empty for the rest of the run); the exception comes before
  the first request; in every other case the probe returns a verdict.
\<close>

theorem mirror_available_index_error:
  assumes not_private: "\<not> mirror_info_private mirror_info"
    and selected:
      "select_mirror_url (mirror_info_urls mirror_info) required_protocols = Some mirror_url"
  shows "(repo_data_arches repo_data = [] \<and> arches_var st = [] \<longrightarrow>
            fst (check_repos http_session mirror_name mirror_url version (repo_data # rest) st) =
              Raise IndexError)
       \<and> ((fst (mirror_available mirror_info versions repos http_session arches
                   required_protocols logger) = Inl IndexError) =
            (versions \<noteq> [] \<and> arches = [] \<and>
             (case repos of [] \<Rightarrow> False | first # _ \<Rightarrow> repo_data_arches first = [])))
       \<and> (fst (mirror_available mirror_info versions repos http_session arches
                  required_protocols logger) = Inl IndexError \<longrightarrow>
            requested (snd (mirror_available mirror_info versions repos http_session arches
                              required_protocols logger)) = [])
       \<and> (fst (mirror_available mirror_info versions repos http_session arches
                  required_protocols logger) \<noteq> Inl IndexError \<longrightarrow>
            (\<exists>available.
               fst (mirror_available mirror_info versions repos http_session arches
                      required_protocols logger) =
                 Inr (mirror_info_name mirror_info, available)))"
proof -
  let ?ps = "List.product versions repos"
  let ?us = "planned_urls mirror_url arches ?ps"
  let ?R = "mirror_available mirror_info versions repos http_session arches
              required_protocols logger"
  have loop: "fst (check_repos http_session mirror_name mirror_url version
                     (repo_data # rest) st) = Raise IndexError"
    if "repo_data_arches repo_data = [] \<and> arches_var st = []"
    using that by (simp add: effective_arches_def Let_def)
  have req: "requested (snd ?R) = take (Suc (successes http_session [] ?us)) ?us"
    by (rule mirror_available_run(1) [OF not_private selected])
  have res: "fst ?R =
       (if successes http_session [] ?us < length ?us
        then Inr (mirror_info_name mirror_info, False)
        else if length ?us < length versions * length repos then Inl IndexError
        else Inr (mirror_info_name mirror_info, True))"
    by (rule mirror_available_run(2) [OF not_private selected])
  have le: "successes http_session [] ?us \<le> length ?us"
    by (rule successes_le)
  have short: "(length ?us < length versions * length repos) =
                 (versions \<noteq> [] \<and> arches = [] \<and>
                  (case repos of [] \<Rightarrow> False | first # _ \<Rightarrow> repo_data_arches first = []))"
    and stopped: "length ?us < length versions * length repos \<Longrightarrow> ?us = []"
  proof -
    have nil: "List.product vs ([] :: RepoData list) = []" for vs :: "string list"
      by (induction vs) simp_all
    show "(length ?us < length versions * length repos) =
                 (versions \<noteq> [] \<and> arches = [] \<and>
                  (case repos of [] \<Rightarrow> False | first # _ \<Rightarrow> repo_data_arches first = []))"
    proof (cases versions)
      case Nil
      then show ?thesis by simp
    next
      case vs: (Cons v vs)
      show ?thesis
      proof (cases repos)
        case Nil
        with vs nil show ?thesis by simp
      next
        case (Cons r rs)
        with vs length_planned_urls_cases [of mirror_url arches ?ps] show ?thesis
          by (auto simp: effective_arches_def length_product split: if_splits)
      qed
    qed
    have "planned_urls mirror_url arches ps = []"
      if "length (planned_urls mirror_url arches ps) < length ps"
      for ps :: "(string \<times> RepoData) list"
      using that length_planned_urls_cases [of mirror_url arches ps]
      by (cases ps) (auto split: if_splits)
    then show "?us = []" if "length ?us < length versions * length repos"
      using that by (simp add: length_product)
  qed
  have raised: "(fst ?R = Inl IndexError) =
                  (length ?us < length versions * length repos)"
  proof
    assume "fst ?R = Inl IndexError"
    with res show "length ?us < length versions * length repos"
      by (auto split: if_splits)
  next
    assume "length ?us < length versions * length repos"
    with stopped res show "fst ?R = Inl IndexError"
      by (simp add: successes_Nil)
  qed
  have none: "requested (snd ?R) = []" if "fst ?R = Inl IndexError"
    using that raised stopped req by simp
  have verdict: "\<exists>available. fst ?R = Inr (mirror_info_name mirror_info, available)"
    if "fst ?R \<noteq> Inl IndexError"
    using that res by (auto split: if_splits)
  from loop raised short none verdict show ?thesis
    by blast
qed

theorem mirror_available_index_error_witness:
  "\<not> mirror_info_private (example_mirror False https_only)
   \<and> select_mirror_url (mirror_info_urls (example_mirror False https_only)) [''https''] =
       Some ''https://example.com''
   \<and> fst (mirror_available (example_mirror False https_only) [''9'']
        [example_repo ''baseos'' [], example_repo ''appstream'' [''aarch64'']]
        (\<lambda>history. Status 200) [] [''https''] []) = Inl IndexError
   \<and> requested (snd (mirror_available (example_mirror False https_only) [''9'']
        [example_repo ''baseos'' [], example_repo ''appstream'' [''aarch64'']]
        (\<lambda>history. Status 200) [] [''https''] [])) = []
   \<and> (\<exists>available.
        fst (mirror_available (example_mirror False https_only) [''9'']
          [example_repo ''appstream'' [''aarch64''], example_repo ''baseos'' []]
          (\<lambda>history. Status 200) [] [''https''] []) = Inr (''mirror.example.com'', available))"
proof -
  let ?m = "example_mirror False https_only"
  let ?h = "\<lambda>history :: string list. Status 200"
  let ?bad = "[example_repo ''baseos'' [], example_repo ''appstream'' [''aarch64'']]"
  let ?good = "[example_repo ''appstream'' [''aarch64''], example_repo ''baseos'' []]"
  have not_private: "\<not> mirror_info_private ?m"
    by (simp add: example_mirror_def)
  have selected: "select_mirror_url (mirror_info_urls ?m) [''https''] = Some ''https://example.com''"
    by (simp add: example_mirror_def https_only_def select_mirror_url_def)
  have name: "mirror_info_name ?m = ''mirror.example.com''"
    by (simp add: example_mirror_def)
  note bad = mirror_available_index_error [OF not_private selected,
      where versions = "[''9'']" and repos = ?bad and arches = "[]" and http_session = ?h
        and logger = "[]", THEN conjunct2]
  note good = mirror_available_index_error [OF not_private selected,
      where versions = "[''9'']" and repos = ?good and arches = "[]" and http_session = ?h
        and logger = "[]", THEN conjunct2]
  from bad have raised:
    "fst (mirror_available ?m [''9''] ?bad ?h [] [''https''] []) = Inl IndexError"
    by (simp add: example_repo_def)
  with bad have none:
    "requested (snd (mirror_available ?m [''9''] ?bad ?h [] [''https''] [])) = []"
    by blast
  from good have
    "\<exists>available. fst (mirror_available ?m [''9''] ?good ?h [] [''https''] []) =
        Inr (''mirror.example.com'', available)"
    unfolding name by (simp add: example_repo_def)
  with raised none not_private selected show ?thesis
    by simp
qed

end
